theory Spec2Isabelle
  imports Complex_Main
begin

section \<open>Values exchanged with the client\<close>

text \<open>
  Request and response bodies are JSON. \<open>request.get_json()\<close> yields Python values:
  \<open>None\<close>, \<open>bool\<close>, \<open>int\<close>, \<open>float\<close>, \<open>str\<close>, \<open>list\<close> and \<open>dict\<close>. A dict is kept as
  the list of its items; its keys are distinct.
\<close>

datatype json =
    JNull
  | JBool bool
  | JInt int
  | JFloat rat
  | JStr string
  | JArr "json list"
  | JObj "(string \<times> json) list"

text \<open>\<open>datetime.datetime\<close>: the values of a \<open>DateTime\<close> column.\<close>

record datetime =
  dt_year :: nat
  dt_month :: nat
  dt_day :: nat
  dt_hour :: nat
  dt_minute :: nat
  dt_second :: nat
  dt_microsecond :: nat

text \<open>
  The claims of a decoded access token: the identity (\<open>sub\<close>), the token identifier
  (\<open>jti\<close>), and the validity window (\<open>nbf\<close>, \<open>exp\<close>) in seconds.
\<close>

record token =
  tok_sub :: string
  tok_jti :: string
  tok_nbf :: nat
  tok_exp :: nat

text \<open>
  What a request carries in its \<open>Authorization\<close> header: nothing, something that does not
  decode to a token signed with the application's key, or such a token.
\<close>

datatype credential = NoHeader | Undecodable | Bearer token

datatype body = JsonBody json | TokenBody token

type_synonym response = "body \<times> nat"

type_synonym args = "(string \<times> string) list"

section \<open>Libraries and the environment of a request\<close>

text \<open>
  The functions of the Python runtime, of the libraries and of the database backend (its
  URI is read from the environment) that the handlers call and whose code is not part of
  the repository are parameters of the model:
  \<^item> \<open>py_int\<close>: \<open>int(s)\<close> on a string, \<open>None\<close> when it raises \<open>ValueError\<close>;
  \<^item> \<open>is_email\<close>: marshmallow's \<open>validate.Email()\<close>;
  \<^item> \<open>from_iso_datetime\<close>: the ISO 8601 parser behind \<open>fields.DateTime\<close>;
  \<^item> \<open>generate_password_hash\<close> (given the salt drawn) and \<open>check_password_hash\<close>;
  \<^item> \<open>db_int\<close>: what the backend stores in an \<open>Integer\<close> column when the value bound is
    not a Python \<open>int\<close>, \<open>None\<close> when the statement fails;
  \<^item> \<open>db_datetime\<close>: what the backend stores in a \<open>DateTime\<close> column when the value bound
    is a string, \<open>None\<close> when the statement fails;
  \<^item> \<open>db_date_ge\<close>, \<open>db_date_le\<close>: the backend's test \<open>Transaction.date >= v\<close> and
    \<open>Transaction.date <= v\<close> of a \<open>DateTime\<close> column against the raw string \<open>v\<close> of a query
    parameter, \<open>None\<close> when the statement fails.
\<close>

record lib =
  py_int :: "string \<Rightarrow> int option"
  is_email :: "string \<Rightarrow> bool"
  from_iso_datetime :: "string \<Rightarrow> datetime option"
  generate_password_hash :: "string \<Rightarrow> string \<Rightarrow> string"
  check_password_hash :: "string \<Rightarrow> string \<Rightarrow> bool"
  db_int :: "json \<Rightarrow> int option"
  db_datetime :: "string \<Rightarrow> datetime option"
  db_date_ge :: "string \<Rightarrow> (datetime \<Rightarrow> bool) option"
  db_date_le :: "string \<Rightarrow> (datetime \<Rightarrow> bool) option"

text \<open>
  What a request reads from outside the store: the clock in seconds (\<open>time.time()\<close>, for
  the token's window), \<open>datetime.datetime.now()\<close>, the \<open>uuid4\<close> drawn for a new token and
  the salt drawn for a new password hash.
\<close>

record env =
  clock :: nat
  now :: datetime
  uuid :: string
  salt :: string

definition today :: "env \<Rightarrow> datetime" where
  "today e = (now e)\<lparr>dt_hour := 0, dt_minute := 0, dt_second := 0, dt_microsecond := 0\<rparr>"

section \<open>Formatting\<close>

definition digit_char :: "nat \<Rightarrow> char" where
  "digit_char n = ''0123456789'' ! (n mod 10)"

function str_nat :: "nat \<Rightarrow> string" where
  "str_nat n = (if n < 10 then [digit_char n] else str_nat (n div 10) @ [digit_char n])"
  by pat_completeness auto
termination
  by (relation "measure id") auto

declare str_nat.simps [simp del]

text \<open>\<open>str(n)\<close> for a Python \<open>int\<close>, as an f-string prints it.\<close>

definition str_int :: "int \<Rightarrow> string" where
  "str_int i = (if i < 0 then CHR ''-'' # str_nat (nat (- i)) else str_nat (nat i))"

definition zfill :: "nat \<Rightarrow> string \<Rightarrow> string" where
  "zfill w s = replicate (w - length s) CHR ''0'' @ s"

text \<open>\<open>datetime.isoformat()\<close>: the microseconds are printed only when they are not zero.\<close>

definition isoformat :: "datetime \<Rightarrow> string" where
  "isoformat d =
     zfill 4 (str_nat (dt_year d)) @ ''-'' @ zfill 2 (str_nat (dt_month d)) @ ''-'' @
     zfill 2 (str_nat (dt_day d)) @ ''T'' @ zfill 2 (str_nat (dt_hour d)) @ '':'' @
     zfill 2 (str_nat (dt_minute d)) @ '':'' @ zfill 2 (str_nat (dt_second d)) @
     (if dt_microsecond d = 0 then [] else ''.'' @ zfill 6 (str_nat (dt_microsecond d)))"

section \<open>Marshmallow schemas\<close>

text \<open>
  A schema is the list of its declared fields. \<open>Schema.validate(data, partial)\<close> returns the
  dictionary of errors: for each loadable field, in declaration order, the error of a
  missing required field (unless the field is partial), of a null value, of a value of
  the wrong type, or the messages of the validators that reject the deserialized value;
  then \<open>Unknown field.\<close> for every key that is no loadable field (\<open>unknown = RAISE\<close>, and a
  \<open>dump_only\<close> field is not loadable). The value deserialized is dropped: \<open>validate\<close>
  returns the errors only, so a \<open>load_default\<close> plays no part.
\<close>

datatype ftype = FInt | FStr | FDateTime

datatype validator = Range int string | OneOf "string list" | Email

datatype schema_field =
  Field (f_name: string) (f_type: ftype) (f_required: bool) (f_dump_only: bool)
    (f_validate: "validator list")

datatype pyval = VInt int | VStr string | VDateTime datetime

type_synonym errors = "(string \<times> string list) list"

text \<open>\<open>int(x)\<close> on a float truncates towards zero.\<close>

definition int_of_float :: "rat \<Rightarrow> int" where
  "int_of_float r = (if r < 0 then - \<lfloor>- r\<rfloor> else \<lfloor>r\<rfloor>)"

fun deserialize :: "lib \<Rightarrow> ftype \<Rightarrow> json \<Rightarrow> string + pyval" where
  "deserialize L FInt (JInt n) = Inr (VInt n)"
| "deserialize L FInt (JFloat r) = Inr (VInt (int_of_float r))"
| "deserialize L FInt (JStr s) =
     (case py_int L s of None \<Rightarrow> Inl ''Not a valid integer.'' | Some n \<Rightarrow> Inr (VInt n))"
| "deserialize L FInt v = Inl ''Not a valid integer.''"
| "deserialize L FStr (JStr s) = Inr (VStr s)"
| "deserialize L FStr v = Inl ''Not a valid string.''"
| "deserialize L FDateTime (JStr s) =
     (if s = [] then Inl ''Not a valid datetime.''
      else case from_iso_datetime L s of
        None \<Rightarrow> Inl ''Not a valid datetime.''
      | Some d \<Rightarrow> Inr (VDateTime d))"
| "deserialize L FDateTime v = Inl ''Not a valid datetime.''"

fun join :: "string \<Rightarrow> string list \<Rightarrow> string" where
  "join sep [] = []"
| "join sep [x] = x"
| "join sep (x # y # ys) = x @ sep @ join sep (y # ys)"

fun run_validator :: "lib \<Rightarrow> validator \<Rightarrow> pyval \<Rightarrow> string list" where
  "run_validator L (Range lo msg) (VInt n) = (if n < lo then [msg] else [])"
| "run_validator L (OneOf choices) (VStr s) =
     (if s \<in> set choices then [] else [''Must be one of: '' @ join '', '' choices @ ''.''])"
| "run_validator L Email (VStr s) =
     (if is_email L s then [] else [''Not a valid email address.''])"
| "run_validator L v x = []"

definition validate_value :: "lib \<Rightarrow> schema_field \<Rightarrow> json \<Rightarrow> string list" where
  "validate_value L f v =
     (if v = JNull then [''Field may not be null.'']
      else case deserialize L (f_type f) v of
        Inl msg \<Rightarrow> [msg]
      | Inr x \<Rightarrow> concat (map (\<lambda>c. run_validator L c x) (f_validate f)))"

definition validate_field ::
  "lib \<Rightarrow> (string \<Rightarrow> bool) \<Rightarrow> (string \<times> json) list \<Rightarrow> schema_field \<Rightarrow> errors" where
  "validate_field L partial kv f =
     (if f_dump_only f then []
      else case map_of kv (f_name f) of
        None \<Rightarrow>
          (if f_required f \<and> \<not> partial (f_name f)
           then [(f_name f, [''Missing data for required field.''])] else [])
      | Some v \<Rightarrow>
          (case validate_value L f v of [] \<Rightarrow> [] | m # ms \<Rightarrow> [(f_name f, m # ms)]))"

definition load_fields :: "schema_field list \<Rightarrow> string list" where
  "load_fields schema = map f_name (filter (\<lambda>f. \<not> f_dump_only f) schema)"

definition validate :: "lib \<Rightarrow> schema_field list \<Rightarrow> (string \<Rightarrow> bool) \<Rightarrow> json \<Rightarrow> errors" where
  "validate L schema partial data =
     (case data of
        JObj kv \<Rightarrow>
          concat (map (validate_field L partial kv) schema) @
          map (\<lambda>(k, v). (k, [''Unknown field.'']))
            (filter (\<lambda>(k, v). k \<notin> set (load_fields schema)) kv)
      | _ \<Rightarrow> [(''_schema'', [''Invalid input type.''])])"

definition UserSchema :: "schema_field list" where
  "UserSchema =
     [Field ''user_id'' FInt False True [],
      Field ''name'' FStr True False [],
      Field ''email'' FStr True False [Email],
      Field ''password'' FStr True False [],
      Field ''created_at'' FDateTime False True []]"

definition TransactionSchema :: "schema_field list" where
  "TransactionSchema =
     [Field ''id'' FInt False True [],
      Field ''user_id'' FInt False True [],
      Field ''amount'' FInt True False [Range 1 ''amount must be positive''],
      Field ''type'' FStr True False [OneOf [''income'', ''expense'']],
      Field ''category'' FStr True False [],
      Field ''date'' FDateTime False False [],
      Field ''note'' FStr False False []]"

text \<open>The three ways the handlers call \<open>validate\<close>.\<close>

definition partial_none :: "string \<Rightarrow> bool" where
  "partial_none k = False"

definition partial_all :: "string \<Rightarrow> bool" where
  "partial_all k = True"

definition partial_only :: "string list \<Rightarrow> string \<Rightarrow> bool" where
  "partial_only ks k = (k \<in> set ks)"

definition errors_json :: "errors \<Rightarrow> json" where
  "errors_json es = JObj (map (\<lambda>(k, ms). (k, JArr (map JStr ms))) es)"

section \<open>The store\<close>

text \<open>The three tables, each the list of its rows in insertion order.\<close>

record user =
  u_user_id :: int
  u_name :: string
  u_email :: string
  u_password :: string
  u_created_at :: datetime

record token_blocklist_row =
  b_id :: int
  b_jti :: string

record transaction_row =
  t_id :: int
  t_user_id :: int
  t_amount :: int
  t_type :: string
  t_category :: string
  t_date :: datetime
  t_note :: string

record state =
  users :: "user list"
  token_blocklist :: "token_blocklist_row list"
  transactions :: "transaction_row list"

text \<open>The primary key the store gives a new row: one more than the largest in use.\<close>

definition next_id :: "int list \<Rightarrow> int" where
  "next_id ids = fold max ids 0 + 1"

text \<open>\<open>select(User).where(User.email == email)\<close> then \<open>.scalar()\<close>: the first row or \<open>None\<close>.\<close>

definition user_by_email :: "state \<Rightarrow> string \<Rightarrow> user option" where
  "user_by_email s email = find (\<lambda>u. u_email u = email) (users s)"

text \<open>
  \<open>select(Transaction).where(Transaction.id == transaction_id, Transaction.user_id ==
  user.user_id)\<close> then \<open>.scalar()\<close>.
\<close>

definition transaction_by_id_and_owner :: "state \<Rightarrow> int \<Rightarrow> int \<Rightarrow> transaction_row option" where
  "transaction_by_id_and_owner s transaction_id uid =
     find (\<lambda>t. t_id t = transaction_id \<and> t_user_id t = uid) (transactions s)"

text \<open>
  Binding a value to a column when the statement is flushed. A Python \<open>int\<close> goes into an
  \<open>Integer\<close> column and a \<open>str\<close> into a \<open>String\<close> column as they are; anything else is up
  to the backend. \<open>None\<close> is a failed statement.
\<close>

definition bind_int :: "lib \<Rightarrow> json \<Rightarrow> int option" where
  "bind_int L v = (case v of JInt n \<Rightarrow> Some n | _ \<Rightarrow> db_int L v)"

definition bind_str :: "json \<Rightarrow> string option" where
  "bind_str v = (case v of JStr x \<Rightarrow> Some x | _ \<Rightarrow> None)"

definition bind_datetime :: "lib \<Rightarrow> json \<Rightarrow> datetime option" where
  "bind_datetime L v = (case v of JStr x \<Rightarrow> db_datetime L x | _ \<Rightarrow> None)"

section \<open>Serialization\<close>

text \<open>\<open>user_schema.dump\<close>: every field but the load-only password.\<close>

definition user_schema_dump :: "user \<Rightarrow> json" where
  "user_schema_dump u =
     JObj [(''user_id'', JInt (u_user_id u)),
           (''name'', JStr (u_name u)),
           (''email'', JStr (u_email u)),
           (''created_at'', JStr (isoformat (u_created_at u)))]"

definition transaction_schema_dump :: "transaction_row \<Rightarrow> json" where
  "transaction_schema_dump t =
     JObj [(''id'', JInt (t_id t)),
           (''user_id'', JInt (t_user_id t)),
           (''amount'', JInt (t_amount t)),
           (''type'', JStr (t_type t)),
           (''category'', JStr (t_category t)),
           (''date'', JStr (isoformat (t_date t))),
           (''note'', JStr (t_note t))]"

section \<open>Error responses\<close>

text \<open>
  An exception no handler catches (a failed statement, an attribute of \<open>None\<close>, a missing
  key) ends the request in the 500 handler; the session is discarded, so the store is as
  before the request.
\<close>

definition server_error :: response where
  "server_error = (JsonBody (JObj [(''error'', JStr ''Internal server error'')]), 500)"

definition jwt_msg :: "string \<Rightarrow> body" where
  "jwt_msg m = JsonBody (JObj [(''msg'', JStr m)])"

definition validation_failed :: "errors \<Rightarrow> response" where
  "validation_failed errors = (JsonBody (JObj [(''errors'', errors_json errors)]), 400)"

definition transaction_not_found :: response where
  "transaction_not_found =
     (JsonBody (JObj [(''error'',
        JStr ''transaction not found for this id or for current user'')]), 404)"

section \<open>Token check\<close>

definition check_if_token_revoked :: "state \<Rightarrow> token \<Rightarrow> bool" where
  "check_if_token_revoked s jwt_payload =
     (let jti = tok_jti jwt_payload;
          token = find (\<lambda>r. b_jti r = jti) (token_blocklist s)
      in token \<noteq> None)"

text \<open>
  \<open>@jwt_required()\<close>: the header is read and the token decoded (signature, then \<open>nbf\<close>,
  then \<open>exp\<close>), then the blocklist loader is asked. A missing header, an expired token and
  a revoked token answer 401; a token that does not decode or is not yet valid answers
  422.
\<close>

fun jwt_required :: "state \<Rightarrow> env \<Rightarrow> credential \<Rightarrow> response + token" where
  "jwt_required s e NoHeader = Inl (jwt_msg ''Missing Authorization Header'', 401)"
| "jwt_required s e Undecodable = Inl (jwt_msg ''Signature verification failed'', 422)"
| "jwt_required s e (Bearer t) =
     (if clock e < tok_nbf t then Inl (jwt_msg ''The token is not yet valid (nbf)'', 422)
      else if tok_exp t \<le> clock e then Inl (jwt_msg ''Token has expired'', 401)
      else if check_if_token_revoked s t then Inl (jwt_msg ''Token has been revoked'', 401)
      else Inr t)"

text \<open>\<open>create_access_token(identity)\<close> with \<open>JWT_ACCESS_TOKEN_EXPIRES\<close> of one hour.\<close>

definition create_access_token :: "env \<Rightarrow> string \<Rightarrow> token" where
  "create_access_token e identity =
     \<lparr>tok_sub = identity, tok_jti = uuid e, tok_nbf = clock e, tok_exp = clock e + 3600\<rparr>"

section \<open>Handlers\<close>

text \<open>\<open>data[key]\<close> on the request body, and the same when the value is a \<open>str\<close>.\<close>

definition getitem :: "json \<Rightarrow> string \<Rightarrow> json option" where
  "getitem data key = (case data of JObj kv \<Rightarrow> map_of kv key | _ \<Rightarrow> None)"

definition getitem_str :: "json \<Rightarrow> string \<Rightarrow> string option" where
  "getitem_str data key = (case getitem data key of Some (JStr x) \<Rightarrow> Some x | _ \<Rightarrow> None)"

subsection \<open>Register, Login, Logout\<close>

text \<open>
  \<open>Register.post\<close>. The handler inserts without looking for the email first; the column is
  declared \<open>unique = True\<close>, so the commit of a second row with the same email raises
  \<open>IntegrityError\<close>, which nothing catches.
\<close>

definition Register_post :: "lib \<Rightarrow> env \<Rightarrow> json \<Rightarrow> state \<Rightarrow> response \<times> state" where
  "Register_post L e data s =
     (let errors = validate L UserSchema partial_none data in
      if errors \<noteq> [] then (validation_failed errors, s)
      else
        (case getitem_str data ''name'' of
           None \<Rightarrow> (server_error, s)
         | Some name \<Rightarrow>
        (case getitem_str data ''email'' of
           None \<Rightarrow> (server_error, s)
         | Some email \<Rightarrow>
        (case getitem_str data ''password'' of
           None \<Rightarrow> (server_error, s)
         | Some pw \<Rightarrow>
          (let password = generate_password_hash L (salt e) pw;
               new_user = \<lparr>u_user_id = next_id (map u_user_id (users s)), u_name = name,
                           u_email = email, u_password = password, u_created_at = now e\<rparr>
           in if email \<in> set (map u_email (users s)) then (server_error, s)
              else ((JsonBody (user_schema_dump new_user), 201),
                    s\<lparr>users := users s @ [new_user]\<rparr>))))))"

definition bad_credentials :: response where
  "bad_credentials =
     (JsonBody (JObj [(''errors'', JStr ''email or password doesn't exist'')]), 401)"

definition Login_post :: "lib \<Rightarrow> env \<Rightarrow> json \<Rightarrow> state \<Rightarrow> response \<times> state" where
  "Login_post L e data s =
     (let errors = validate L UserSchema (partial_only [''name'']) data in
      if errors \<noteq> [] then (validation_failed errors, s)
      else
        (case getitem_str data ''email'' of
           None \<Rightarrow> (server_error, s)
         | Some email \<Rightarrow>
        (case getitem_str data ''password'' of
           None \<Rightarrow> (server_error, s)
         | Some password \<Rightarrow>
        (case user_by_email s email of
           None \<Rightarrow> (bad_credentials, s)
         | Some user \<Rightarrow>
             if check_password_hash L (u_password user) password
             then ((TokenBody (create_access_token e email), 200), s)
             else (bad_credentials, s)))))"

definition logged_out :: response where
  "logged_out = (JsonBody (JObj [(''message'', JStr ''successfully logged out'')]), 200)"

definition Logout_post :: "env \<Rightarrow> credential \<Rightarrow> state \<Rightarrow> response \<times> state" where
  "Logout_post e cred s =
     (case jwt_required s e cred of
        Inl r \<Rightarrow> (r, s)
      | Inr jwt \<Rightarrow>
          let jti = tok_jti jwt
          in (logged_out,
              s\<lparr>token_blocklist := token_blocklist s @
                   [\<lparr>b_id = next_id (map b_id (token_blocklist s)), b_jti = jti\<rparr>]\<rparr>))"

subsection \<open>AddTransaction\<close>

text \<open>
  \<open>Transaction(user_id = user.user_id, **data)\<close> followed by the commit. The attributes come
  from the raw request body, not from a deserialized copy: each is bound to its column
  when the row is inserted. A column the body does not give takes its default (\<open>date\<close>:
  \<open>datetime.date.today\<close>, \<open>note\<close>: \<open>NA\<close>) or stays \<open>NULL\<close>, which the \<open>nullable = False\<close>
  columns refuse. The body has passed \<open>validate\<close>, so it has no key besides the five read
  here.
\<close>

definition column ::
  "(string \<times> json) list \<Rightarrow> string \<Rightarrow> (json \<Rightarrow> 'a option) \<Rightarrow> 'a option \<Rightarrow> 'a option" where
  "column kv key bind dflt = (case map_of kv key of None \<Rightarrow> dflt | Some v \<Rightarrow> bind v)"

definition new_transaction ::
  "lib \<Rightarrow> env \<Rightarrow> int \<Rightarrow> int \<Rightarrow> json \<Rightarrow> transaction_row option" where
  "new_transaction L e new_id uid data =
     (case data of
        JObj kv \<Rightarrow>
          Option.bind (column kv ''amount'' (bind_int L) None) (\<lambda>amount.
          Option.bind (column kv ''type'' bind_str None) (\<lambda>type.
          Option.bind (column kv ''category'' bind_str None) (\<lambda>category.
          Option.bind (column kv ''date'' (bind_datetime L) (Some (today e))) (\<lambda>date.
          Option.bind (column kv ''note'' bind_str (Some ''NA'')) (\<lambda>note.
            Some \<lparr>t_id = new_id, t_user_id = uid, t_amount = amount, t_type = type,
                  t_category = category, t_date = date, t_note = note\<rparr>)))))
      | _ \<Rightarrow> None)"

definition AddTransaction_post ::
  "lib \<Rightarrow> env \<Rightarrow> credential \<Rightarrow> json \<Rightarrow> state \<Rightarrow> response \<times> state" where
  "AddTransaction_post L e cred data s =
     (case jwt_required s e cred of
        Inl r \<Rightarrow> (r, s)
      | Inr jwt \<Rightarrow>
          (let errors = validate L TransactionSchema partial_none data in
           if errors \<noteq> [] then (validation_failed errors, s)
           else
             (case user_by_email s (tok_sub jwt) of
                None \<Rightarrow> (server_error, s)
              | Some user \<Rightarrow>
                  (case new_transaction L e (next_id (map t_id (transactions s)))
                          (u_user_id user) data of
                     None \<Rightarrow> (server_error, s)
                   | Some row \<Rightarrow>
                       ((JsonBody (transaction_schema_dump row), 201),
                        s\<lparr>transactions := transactions s @ [row]\<rparr>)))))"

subsection \<open>GetTransactions\<close>

text \<open>\<open>request.args.get(key)\<close> and \<open>request.args.get(key, default, type = int)\<close>.\<close>

definition args_get :: "args \<Rightarrow> string \<Rightarrow> string option" where
  "args_get a key = map_of a key"

definition args_get_int :: "lib \<Rightarrow> args \<Rightarrow> string \<Rightarrow> int \<Rightarrow> int" where
  "args_get_int L a key dflt =
     (case map_of a key of
        None \<Rightarrow> dflt
      | Some v \<Rightarrow> (case py_int L v of None \<Rightarrow> dflt | Some n \<Rightarrow> n))"

text \<open>\<open>if value: query = query.where(...)\<close>: an absent or empty parameter adds no filter.\<close>

fun where_if :: "string option \<Rightarrow> (string \<Rightarrow> 'a \<Rightarrow> bool) \<Rightarrow> 'a list \<Rightarrow> 'a list" where
  "where_if None p rows = rows"
| "where_if (Some v) p rows = (if v = [] then rows else filter (p v) rows)"

text \<open>
  The same for a filter on the \<open>DateTime\<close> column, whose right-hand side is the raw string
  of the query parameter: the comparison is the backend's, \<open>None\<close> when it refuses the
  statement.
\<close>

fun where_date_if ::
  "(string \<Rightarrow> (datetime \<Rightarrow> bool) option) \<Rightarrow> string option \<Rightarrow> transaction_row list \<Rightarrow>
     transaction_row list option" where
  "where_date_if cmp None rows = Some rows"
| "where_date_if cmp (Some v) rows =
     (if v = [] then Some rows
      else case cmp v of
        None \<Rightarrow> None
      | Some p \<Rightarrow> Some (filter (\<lambda>t. p (t_date t)) rows))"

record 'a pagination =
  pg_items :: "'a list"
  pg_total :: int
  pg_page :: int
  pg_pages :: int
  pg_per_page :: int

text \<open>
  \<open>db.paginate(query, page, per_page, error_out = False)\<close>: a page below 1 becomes 1 and a
  page size below 1 becomes 20; the items are the rows from offset \<open>(page - 1) * per_page\<close>,
  at most \<open>per_page\<close> of them; \<open>pages\<close> is 0 for an empty result and
  \<open>ceil(total / per_page)\<close> otherwise.
\<close>

definition paginate :: "'a list \<Rightarrow> int \<Rightarrow> int \<Rightarrow> 'a pagination" where
  "paginate rows page per_page =
     (let page = (if page < 1 then 1 else page);
          per_page = (if per_page < 1 then 20 else per_page);
          total = int (length rows)
      in \<lparr>pg_items = take (nat per_page) (drop (nat ((page - 1) * per_page)) rows),
          pg_total = total,
          pg_page = page,
          pg_pages = (if total = 0 then 0 else (total + per_page - 1) div per_page),
          pg_per_page = per_page\<rparr>)"

text \<open>The rows the query of \<open>GetTransactions.get\<close> selects, before pagination.\<close>

definition filtered_transactions ::
  "lib \<Rightarrow> args \<Rightarrow> int \<Rightarrow> transaction_row list \<Rightarrow> transaction_row list option" where
  "filtered_transactions L a uid rows =
     (let type = args_get a ''type'';
          category = args_get a ''category'';
          start_date = args_get a ''start_date'';
          end_date = args_get a ''end_date'';
          q0 = filter (\<lambda>t. t_user_id t = uid) rows;
          q1 = where_if type (\<lambda>v t. t_type t = v) q0;
          q2 = where_if category (\<lambda>v t. t_category t = v) q1
      in case where_date_if (db_date_ge L) start_date q2 of
           None \<Rightarrow> None
         | Some q3 \<Rightarrow> where_date_if (db_date_le L) end_date q3)"

definition page_body :: "transaction_row pagination \<Rightarrow> json" where
  "page_body pagination =
     JObj [(''transactions'', JArr (map transaction_schema_dump (pg_items pagination))),
           (''total'', JInt (pg_total pagination)),
           (''page'', JInt (pg_page pagination)),
           (''pages'', JInt (pg_pages pagination)),
           (''per_page'', JInt (pg_per_page pagination))]"

definition GetTransactions_get ::
  "lib \<Rightarrow> env \<Rightarrow> credential \<Rightarrow> args \<Rightarrow> state \<Rightarrow> response \<times> state" where
  "GetTransactions_get L e cred a s =
     (case jwt_required s e cred of
        Inl r \<Rightarrow> (r, s)
      | Inr jwt \<Rightarrow>
          (case user_by_email s (tok_sub jwt) of
             None \<Rightarrow> (server_error, s)
           | Some user \<Rightarrow>
               (let page = args_get_int L a ''page'' 1;
                    per_page = args_get_int L a ''per_page'' 4
                in (case filtered_transactions L a (u_user_id user) (transactions s) of
                      None \<Rightarrow> (server_error, s)
                    | Some query \<Rightarrow>
                        ((JsonBody (page_body (paginate query page per_page)), 200), s)))))"

subsection \<open>EditTransaction, DeleteTransaction\<close>

text \<open>
  \<open>setattr(transaction, key, value)\<close> with the raw value of the body; the value is bound to
  its column when the commit flushes the row. A key that names no column sets a plain
  attribute of the object, which the store never sees.
\<close>

definition setattr :: "lib \<Rightarrow> transaction_row \<Rightarrow> string \<Rightarrow> json \<Rightarrow> transaction_row option" where
  "setattr L t key v =
     (if key = ''amount'' then map_option (\<lambda>x. t\<lparr>t_amount := x\<rparr>) (bind_int L v)
      else if key = ''type'' then map_option (\<lambda>x. t\<lparr>t_type := x\<rparr>) (bind_str v)
      else if key = ''category'' then map_option (\<lambda>x. t\<lparr>t_category := x\<rparr>) (bind_str v)
      else if key = ''date'' then map_option (\<lambda>x. t\<lparr>t_date := x\<rparr>) (bind_datetime L v)
      else if key = ''note'' then map_option (\<lambda>x. t\<lparr>t_note := x\<rparr>) (bind_str v)
      else if key = ''id'' then map_option (\<lambda>x. t\<lparr>t_id := x\<rparr>) (bind_int L v)
      else if key = ''user_id'' then map_option (\<lambda>x. t\<lparr>t_user_id := x\<rparr>) (bind_int L v)
      else Some t)"

text \<open>\<open>for key, value in data.items(): setattr(transaction, key, value)\<close>.\<close>

fun setattrs :: "lib \<Rightarrow> transaction_row \<Rightarrow> (string \<times> json) list \<Rightarrow> transaction_row option" where
  "setattrs L t [] = Some t"
| "setattrs L t ((key, v) # items) =
     (case setattr L t key v of None \<Rightarrow> None | Some t' \<Rightarrow> setattrs L t' items)"

text \<open>The \<open>UPDATE\<close> and the \<open>DELETE\<close> the commit issues address the row by its primary key.\<close>

definition update_row :: "int \<Rightarrow> transaction_row \<Rightarrow> transaction_row list \<Rightarrow> transaction_row list" where
  "update_row pk t' rows = map (\<lambda>x. if t_id x = pk then t' else x) rows"

definition delete_row :: "int \<Rightarrow> transaction_row list \<Rightarrow> transaction_row list" where
  "delete_row pk rows = filter (\<lambda>x. t_id x \<noteq> pk) rows"

definition EditTransaction_patch ::
  "lib \<Rightarrow> env \<Rightarrow> credential \<Rightarrow> int \<Rightarrow> json \<Rightarrow> state \<Rightarrow> response \<times> state" where
  "EditTransaction_patch L e cred transaction_id data s =
     (case jwt_required s e cred of
        Inl r \<Rightarrow> (r, s)
      | Inr jwt \<Rightarrow>
          (let errors = validate L TransactionSchema partial_all data in
           if errors \<noteq> [] then (validation_failed errors, s)
           else
             (case user_by_email s (tok_sub jwt) of
                None \<Rightarrow> (server_error, s)
              | Some user \<Rightarrow>
                  (case transaction_by_id_and_owner s transaction_id (u_user_id user) of
                     None \<Rightarrow> (transaction_not_found, s)
                   | Some transaction \<Rightarrow>
                       (case data of
                          JObj items \<Rightarrow>
                            (case setattrs L transaction items of
                               None \<Rightarrow> (server_error, s)
                             | Some t' \<Rightarrow>
                                 ((JsonBody (transaction_schema_dump t'), 200),
                                  s\<lparr>transactions :=
                                      update_row (t_id transaction) t' (transactions s)\<rparr>))
                        | _ \<Rightarrow> (server_error, s))))))"

definition transaction_deleted :: response where
  "transaction_deleted =
     (JsonBody (JObj [(''message'', JStr ''transaction deleted successfully'')]), 200)"

definition DeleteTransaction_delete ::
  "env \<Rightarrow> credential \<Rightarrow> int \<Rightarrow> state \<Rightarrow> response \<times> state" where
  "DeleteTransaction_delete e cred transaction_id s =
     (case jwt_required s e cred of
        Inl r \<Rightarrow> (r, s)
      | Inr jwt \<Rightarrow>
          (case user_by_email s (tok_sub jwt) of
             None \<Rightarrow> (server_error, s)
           | Some user \<Rightarrow>
               (case transaction_by_id_and_owner s transaction_id (u_user_id user) of
                  None \<Rightarrow> (transaction_not_found, s)
                | Some transaction \<Rightarrow>
                    (transaction_deleted,
                     s\<lparr>transactions := delete_row (t_id transaction) (transactions s)\<rparr>))))"

subsection \<open>Reports\<close>

text \<open>\<open>func.sum\<close> over the selected rows is \<open>NULL\<close> when there is none; \<open>x or 0\<close>.\<close>

definition sql_sum :: "int list \<Rightarrow> int option" where
  "sql_sum xs = (if xs = [] then None else Some (sum_list xs))"

definition or_0 :: "int option \<Rightarrow> int" where
  "or_0 x = (case x of None \<Rightarrow> 0 | Some n \<Rightarrow> if n = 0 then 0 else n)"

text \<open>\<open>extract("year", Transaction.date) == year\<close> and the same for the month.\<close>

definition in_period :: "int \<Rightarrow> int \<Rightarrow> transaction_row \<Rightarrow> bool" where
  "in_period year month t =
     (int (dt_year (t_date t)) = year \<and> int (dt_month (t_date t)) = month)"

definition sum_of_type :: "state \<Rightarrow> int \<Rightarrow> string \<Rightarrow> int \<Rightarrow> int \<Rightarrow> int option" where
  "sum_of_type s uid type year month =
     sql_sum (map t_amount
       (filter (\<lambda>t. t_user_id t = uid \<and> t_type t = type \<and> in_period year month t)
          (transactions s)))"

definition MonthlySummary_get ::
  "lib \<Rightarrow> env \<Rightarrow> credential \<Rightarrow> args \<Rightarrow> state \<Rightarrow> response \<times> state" where
  "MonthlySummary_get L e cred a s =
     (case jwt_required s e cred of
        Inl r \<Rightarrow> (r, s)
      | Inr jwt \<Rightarrow>
          (case user_by_email s (tok_sub jwt) of
             None \<Rightarrow> (server_error, s)
           | Some user \<Rightarrow>
               (let year = args_get_int L a ''year'' (int (dt_year (today e)));
                    month = args_get_int L a ''month'' (int (dt_month (today e)));
                    income = or_0 (sum_of_type s (u_user_id user) ''income'' year month);
                    expense = or_0 (sum_of_type s (u_user_id user) ''expense'' year month);
                    balance = income - expense
                in ((JsonBody (JObj
                      [(''monthly summary'', JStr (str_int year @ '' - '' @ str_int month)),
                       (''income'', JInt income),
                       (''expense'', JInt expense),
                       (''balance'', JInt balance)]), 200), s))))"

text \<open>
  \<open>group_by(Transaction.category)\<close>: one row per category of the period with the sum of
  its amounts, income and expense alike. The store does not fix the order of the groups.
\<close>

definition category_breakdown :: "transaction_row list \<Rightarrow> (string \<times> int) list" where
  "category_breakdown rows =
     map (\<lambda>c. (c, sum_list (map t_amount (filter (\<lambda>t. t_category t = c) rows))))
       (remdups (map t_category rows))"

definition CategoryBreakdown_get ::
  "lib \<Rightarrow> env \<Rightarrow> credential \<Rightarrow> args \<Rightarrow> state \<Rightarrow> response \<times> state" where
  "CategoryBreakdown_get L e cred a s =
     (case jwt_required s e cred of
        Inl r \<Rightarrow> (r, s)
      | Inr jwt \<Rightarrow>
          (case user_by_email s (tok_sub jwt) of
             None \<Rightarrow> (server_error, s)
           | Some user \<Rightarrow>
               (let year = args_get_int L a ''year'' (int (dt_year (today e)));
                    month = args_get_int L a ''month'' (int (dt_month (today e)));
                    result = category_breakdown
                      (filter (\<lambda>t. t_user_id t = u_user_id user \<and> in_period year month t)
                         (transactions s));
                    breakdown = map (\<lambda>r. JObj [(''category'', JStr (fst r)),
                                                  (''total'', JInt (snd r))]) result
                in ((JsonBody (JObj
                      [(''month'', JStr (str_int year @ '' - '' @ str_int month)),
                       (''category breakdown'', JArr breakdown)]), 200), s))))"

subsection \<open>Routes\<close>

datatype request =
    Register json
  | Login json
  | Logout credential
  | AddTransaction credential json
  | GetTransactions credential args
  | EditTransaction credential int json
  | DeleteTransaction credential int
  | MonthlySummary credential args
  | CategoryBreakdown credential args

fun handle :: "lib \<Rightarrow> env \<Rightarrow> request \<Rightarrow> state \<Rightarrow> response \<times> state" where
  "handle L e (Register data) s = Register_post L e data s"
| "handle L e (Login data) s = Login_post L e data s"
| "handle L e (Logout cred) s = Logout_post e cred s"
| "handle L e (AddTransaction cred data) s = AddTransaction_post L e cred data s"
| "handle L e (GetTransactions cred a) s = GetTransactions_get L e cred a s"
| "handle L e (EditTransaction cred transaction_id data) s =
     EditTransaction_patch L e cred transaction_id data s"
| "handle L e (DeleteTransaction cred transaction_id) s =
     DeleteTransaction_delete e cred transaction_id s"
| "handle L e (MonthlySummary cred a) s = MonthlySummary_get L e cred a s"
| "handle L e (CategoryBreakdown cred a) s = CategoryBreakdown_get L e cred a s"



definition status :: "response \<times> state \<Rightarrow> nat" where
  "status out = snd (fst out)"


section \<open>The properties in the words of the specification\<close>



text \<open>
  What \<open>TransactionSchema\<close> accepts, field by field: every key is a loadable field, the
  amount converts to an integer of at least 1, the type is one of the two strings, the
  category and the note are strings, the date is a non-empty string the ISO parser reads.
  \<open>required\<close> is false under \<open>partial = True\<close>.
\<close>

definition amount_ok :: "lib \<Rightarrow> json \<Rightarrow> bool" where
  "amount_ok L v =
     (case v of
        JInt n \<Rightarrow> 1 \<le> n
      | JFloat r \<Rightarrow> 1 \<le> int_of_float r
      | JStr x \<Rightarrow> (case py_int L x of None \<Rightarrow> False | Some n \<Rightarrow> 1 \<le> n)
      | _ \<Rightarrow> False)"

definition type_ok :: "json \<Rightarrow> bool" where
  "type_ok v = (v = JStr ''income'' \<or> v = JStr ''expense'')"

definition str_ok :: "json \<Rightarrow> bool" where
  "str_ok v = (case v of JStr x \<Rightarrow> True | _ \<Rightarrow> False)"

definition date_ok :: "lib \<Rightarrow> json \<Rightarrow> bool" where
  "date_ok L v = (case v of JStr x \<Rightarrow> x \<noteq> [] \<and> from_iso_datetime L x \<noteq> None | _ \<Rightarrow> False)"

definition given_ok :: "(string \<times> json) list \<Rightarrow> string \<Rightarrow> (json \<Rightarrow> bool) \<Rightarrow> bool \<Rightarrow> bool" where
  "given_ok kv key ok required = (case map_of kv key of None \<Rightarrow> \<not> required | Some v \<Rightarrow> ok v)"

definition transaction_body_ok :: "lib \<Rightarrow> bool \<Rightarrow> json \<Rightarrow> bool" where
  "transaction_body_ok L required data =
     (case data of
        JObj kv \<Rightarrow>
          list_all (\<lambda>k. k \<in> set [''amount'', ''type'', ''category'', ''date'', ''note''])
            (map fst kv) \<and>
          given_ok kv ''amount'' (amount_ok L) required \<and>
          given_ok kv ''type'' type_ok required \<and>
          given_ok kv ''category'' str_ok required \<and>
          given_ok kv ''date'' (date_ok L) False \<and>
          given_ok kv ''note'' str_ok False
      | _ \<Rightarrow> False)"


definition loadable :: "string \<Rightarrow> bool" where
  "loadable k = (k \<in> set [''amount'', ''type'', ''category'', ''date'', ''note''])"

text \<open>
  The dumped representation of a transaction without its two dump-only keys, and the same
  without the date.
\<close>

definition dump_loadable :: "transaction_row \<Rightarrow> (string \<times> json) list" where
  "dump_loadable t =
     [(''amount'', JInt (t_amount t)),
      (''type'', JStr (t_type t)),
      (''category'', JStr (t_category t)),
      (''date'', JStr (isoformat (t_date t))),
      (''note'', JStr (t_note t))]"

definition without_date :: "(string \<times> json) list \<Rightarrow> (string \<times> json) list" where
  "without_date items = filter (\<lambda>kv. fst kv \<noteq> ''date'') items"

section \<open>A small store\<close>

text \<open>
  Two users with one transaction each, a token of the first user, and stand-ins for the
  library functions, used to run the handlers on concrete requests.
\<close>

definition sep1 :: datetime where
  "sep1 = \<lparr>dt_year = 2025, dt_month = 9, dt_day = 1, dt_hour = 0, dt_minute = 0,
           dt_second = 0, dt_microsecond = 0\<rparr>"

definition lib0 :: lib where
  "lib0 =
     \<lparr>py_int = map_of [(''1'', 1), (''2'', 2), (''9'', 9), (''2025'', 2025)],
      is_email = (\<lambda>x. CHR ''@'' \<in> set x),
      from_iso_datetime = (\<lambda>x. if x = isoformat sep1 then Some sep1 else None),
      generate_password_hash = (\<lambda>salt pw. salt @ ''$'' @ pw),
      check_password_hash = (\<lambda>h pw. h = takeWhile (\<lambda>c. c \<noteq> CHR ''$'') h @ ''$'' @ pw),
      db_int = (\<lambda>v. None),
      db_datetime = (\<lambda>x. if x = isoformat sep1 then Some sep1 else None),
      db_date_ge = (\<lambda>x. None),
      db_date_le = (\<lambda>x. None)\<rparr>"

definition env0 :: env where
  "env0 = \<lparr>clock = 1000, now = sep1\<lparr>dt_hour := 12, dt_minute := 30\<rparr>, uuid = ''jti-2'',
           salt = ''s1''\<rparr>"

definition env1 :: env where
  "env1 = env0\<lparr>clock := 2000\<rparr>"

definition alice :: user where
  "alice = \<lparr>u_user_id = 1, u_name = ''Alice'', u_email = ''alice@example.com'',
            u_password = ''s0$secret'', u_created_at = sep1\<rparr>"

definition bob :: user where
  "bob = \<lparr>u_user_id = 2, u_name = ''Bob'', u_email = ''bob@example.com'',
          u_password = ''s0$hunter2'', u_created_at = sep1\<rparr>"

definition alice_token :: token where
  "alice_token = \<lparr>tok_sub = ''alice@example.com'', tok_jti = ''jti-1'', tok_nbf = 900,
                  tok_exp = 4500\<rparr>"

definition salary :: transaction_row where
  "salary = \<lparr>t_id = 1, t_user_id = 1, t_amount = 20000, t_type = ''income'',
             t_category = ''salary'', t_date = sep1, t_note = ''NA''\<rparr>"

definition rent :: transaction_row where
  "rent = \<lparr>t_id = 2, t_user_id = 2, t_amount = 700, t_type = ''expense'',
           t_category = ''rent'', t_date = sep1, t_note = ''NA''\<rparr>"

definition state0 :: state where
  "state0 = \<lparr>users = [alice, bob], token_blocklist = [], transactions = [salary, rent]\<rparr>"

definition state_without_rent :: state where
  "state_without_rent = state0\<lparr>transactions := [salary]\<rparr>"

definition food_row :: transaction_row where
  "food_row = \<lparr>t_id = 3, t_user_id = 1, t_amount = 1, t_type = ''expense'',
               t_category = ''food'', t_date = sep1, t_note = ''NA''\<rparr>"

definition state1 :: state where
  "state1 = state0\<lparr>transactions := [salary, rent, food_row]\<rparr>"

definition food :: json where
  "food = JObj [(''amount'', JInt 1), (''type'', JStr ''expense''), (''category'', JStr ''food'')]"

definition food_for_bob :: json where
  "food_for_bob =
     JObj [(''amount'', JInt 1), (''type'', JStr ''expense''), (''category'', JStr ''food''),
           (''user_id'', JInt 2)]"


definition raise :: "(string \<times> json) list" where
  "raise = [(''amount'', JInt 25000), (''note'', JStr ''raise'')]"


definition duplicate_registration :: json where
  "duplicate_registration =
     JObj [(''name'', JStr ''Mallory''), (''email'', JStr ''alice@example.com''),
           (''password'', JStr ''secret'')]"

section \<open>Schema validation\<close>

lemma validate_value_amount:
  "validate_value L (Field ''amount'' FInt True False [Range 1 msg]) v = [] \<longleftrightarrow> amount_ok L v"
  by (cases v) (auto simp: validate_value_def amount_ok_def split: option.splits)

lemma validate_value_type:
  "validate_value L (Field ''type'' FStr True False [OneOf [''income'', ''expense'']]) v = []
     \<longleftrightarrow> type_ok v"
  by (cases v) (auto simp: validate_value_def type_ok_def)

lemma validate_value_str:
  "validate_value L (Field name FStr req False []) v = [] \<longleftrightarrow> str_ok v"
  by (cases v) (auto simp: validate_value_def str_ok_def)

lemma validate_value_date:
  "validate_value L (Field ''date'' FDateTime False False []) v = [] \<longleftrightarrow> date_ok L v"
  by (cases v) (auto simp: validate_value_def date_ok_def split: option.splits)

lemma validate_field_nil:
  assumes "\<And>v. validate_value L f v = [] \<longleftrightarrow> ok v" and "\<not> f_dump_only f"
  shows "validate_field L partial kv f = []
     \<longleftrightarrow> given_ok kv (f_name f) ok (f_required f \<and> \<not> partial (f_name f))"
proof -
  have "validate_field L partial kv f = [] \<longleftrightarrow>
      (case map_of kv (f_name f) of
         None \<Rightarrow> \<not> (f_required f \<and> \<not> partial (f_name f))
       | Some v \<Rightarrow> validate_value L f v = [])"
    using assms(2) by (auto simp: validate_field_def split: option.splits list.splits)
  then show ?thesis by (simp add: given_ok_def assms(1) split: option.splits)
qed

lemma unknown_nil:
  "map (\<lambda>(k, v). (k, [''Unknown field.''])) (filter (\<lambda>(k, v). k \<notin> set names) kv) = []
     \<longleftrightarrow> list_all (\<lambda>k. k \<in> set names) (map fst kv)"
  by (induction kv) auto

lemma validate_transaction_iff:
  assumes "\<And>k. partial k \<longleftrightarrow> \<not> required"
  shows "validate L TransactionSchema partial data = [] \<longleftrightarrow> transaction_body_ok L required data"
proof (cases data)
  case (JObj kv)
  have lf: "load_fields TransactionSchema = [''amount'', ''type'', ''category'', ''date'', ''note'']"
    by (simp add: load_fields_def TransactionSchema_def)
  show ?thesis
    unfolding JObj validate_def transaction_body_ok_def json.case lf append_is_Nil_conv unknown_nil
    by (simp add: TransactionSchema_def validate_field_nil [OF validate_value_amount]
        validate_field_nil [OF validate_value_type] validate_field_nil [OF validate_value_str]
        validate_field_nil [OF validate_value_date] assms)
      (auto simp: validate_field_def)
qed (simp_all add: validate_def transaction_body_ok_def)

lemma validate_add_iff:
  "validate L TransactionSchema partial_none data = [] \<longleftrightarrow> transaction_body_ok L True data"
  by (rule validate_transaction_iff) (simp add: partial_none_def)

lemma validate_edit_iff:
  "validate L TransactionSchema partial_all data = [] \<longleftrightarrow> transaction_body_ok L False data"
  by (rule validate_transaction_iff) (simp add: partial_all_def)



lemma body_not_ok_key:
  assumes "getitem data key \<noteq> None"
    and "key \<notin> set [''amount'', ''type'', ''category'', ''date'', ''note'']"
  shows "\<not> transaction_body_ok L req data"
proof (cases data)
  case (JObj kv)
  then have "key \<in> set (map fst kv)"
    using assms(1) by (auto simp: getitem_def map_of_eq_None_iff)
  then show ?thesis
    using assms(2) by (auto simp: JObj transaction_body_ok_def list_all_iff)
qed (use assms in \<open>simp_all add: getitem_def\<close>)

lemma body_ok_loadable:
  "transaction_body_ok L req (JObj items) \<Longrightarrow> list_all loadable (map fst items)"
  by (simp add: transaction_body_ok_def loadable_def [abs_def])

section \<open>Tokens and revocation\<close>









text \<open>
  A token that \<open>Login.post\<close> issues is valid from the moment of the login, for one hour, and
  names a registered user.
\<close>

lemma login_token:
  assumes "Login_post L e data s = ((TokenBody t, 200), s')"
  shows "tok_nbf t = clock e" and "tok_exp t = clock e + 3600" and "tok_jti t = uuid e"
    and "user_by_email s (tok_sub t) \<noteq> None" and "s' = s"
  using assms
  by (auto simp: Login_post_def Let_def validation_failed_def server_error_def
        bad_credentials_def create_access_token_def split: if_splits option.splits)

lemma alice_authenticated: "jwt_required state0 env0 (Bearer alice_token) = Inr alice_token"
  by (simp add: state0_def env0_def alice_token_def check_if_token_revoked_def)

lemma alice_authenticated1: "jwt_required state0 env1 (Bearer alice_token) = Inr alice_token"
  by (simp add: state0_def env0_def env1_def alice_token_def check_if_token_revoked_def)

lemma alice_found: "user_by_email state0 (tok_sub alice_token) = Some alice"
  by (simp add: state0_def alice_token_def user_by_email_def alice_def)






section \<open>Registration\<close>

text \<open>
  A request whose email is already registered never adds a user: it ends in a validation
  error or in the server error of the failed commit. Emails stay distinct.
\<close>

lemma register_existing_email:
  assumes "getitem_str data ''email'' = Some email" and "email \<in> set (map u_email (users s))"
  shows "status (Register_post L e data s) \<in> {400, 500}"
    and "snd (Register_post L e data s) = s"
  using assms
  by (auto simp: Register_post_def Let_def status_def validation_failed_def server_error_def
        split: option.splits)

lemma register_keeps_emails_distinct:
  assumes "distinct (map u_email (users s))"
  shows "distinct (map u_email (users (snd (Register_post L e data s))))"
  using assms
  by (auto simp: Register_post_def Let_def split: option.splits)

text \<open>
  Claim C4. The specification asks for a conflict error, 400 or 409, when the email is
  taken. \<open>Register.post\<close> does not look the email up; a well-formed request with the email
  of a registered user reaches the commit, the unique constraint refuses the row, and
  the request ends in the 500 handler. No second user is stored.
\<close>

theorem duplicate_email_is_a_server_error:
  "validate lib0 UserSchema partial_none duplicate_registration = []
   \<and> user_by_email state0 ''alice@example.com'' = Some alice
   \<and> Register_post lib0 env0 duplicate_registration state0 = (server_error, state0)
   \<and> status (Register_post lib0 env0 duplicate_registration state0) = 500"
proof -
  have v: "validate lib0 UserSchema partial_none duplicate_registration = []"
    by (simp add: validate_def UserSchema_def duplicate_registration_def validate_field_def
          validate_value_def partial_none_def load_fields_def lib0_def)
  have u: "user_by_email state0 ''alice@example.com'' = Some alice"
    by (simp add: user_by_email_def state0_def alice_def)
  have r: "Register_post lib0 env0 duplicate_registration state0 = (server_error, state0)"
    by (simp add: Register_post_def v Let_def)
       (simp add: duplicate_registration_def getitem_str_def getitem_def state0_def alice_def)
  show ?thesis using v u r by (simp add: status_def server_error_def)
qed

section \<open>Adding a transaction\<close>

lemma add_authenticated:
  assumes "jwt_required s e cred = Inr jwt"
  shows "AddTransaction_post L e cred data s =
     (if \<not> transaction_body_ok L True data
      then (validation_failed (validate L TransactionSchema partial_none data), s)
      else case user_by_email s (tok_sub jwt) of
             None \<Rightarrow> (server_error, s)
           | Some user \<Rightarrow>
               (case new_transaction L e (next_id (map t_id (transactions s)))
                       (u_user_id user) data of
                  None \<Rightarrow> (server_error, s)
                | Some row \<Rightarrow>
                    ((JsonBody (transaction_schema_dump row), 201),
                     s\<lparr>transactions := transactions s @ [row]\<rparr>)))"
  using assms validate_add_iff [of L data]
  by (simp add: AddTransaction_post_def Let_def)



lemma add_minimal_body:
  assumes "jwt_required s e cred = Inr jwt"
    and "user_by_email s (tok_sub jwt) = Some user"
    and "ty = ''income'' \<or> ty = ''expense''"
  shows "AddTransaction_post L e cred
           (JObj [(''amount'', JInt 1), (''type'', JStr ty), (''category'', JStr c)]) s =
         ((JsonBody (transaction_schema_dump
             \<lparr>t_id = next_id (map t_id (transactions s)), t_user_id = u_user_id user,
              t_amount = 1, t_type = ty, t_category = c, t_date = today e, t_note = ''NA''\<rparr>), 201),
          s\<lparr>transactions := transactions s @
             [\<lparr>t_id = next_id (map t_id (transactions s)), t_user_id = u_user_id user,
              t_amount = 1, t_type = ty, t_category = c, t_date = today e, t_note = ''NA''\<rparr>]\<rparr>)"
proof -
  have ok: "transaction_body_ok L True
      (JObj [(''amount'', JInt 1), (''type'', JStr ty), (''category'', JStr c)])"
    using assms(3)
    by (auto simp: transaction_body_ok_def given_ok_def amount_ok_def type_ok_def str_ok_def)
  show ?thesis
    by (simp add: add_authenticated [OF assms(1)] ok assms(2) new_transaction_def column_def
          bind_int_def bind_str_def)
qed

lemma new_transaction_owner:
  assumes "new_transaction L e new_id uid data = Some row"
  shows "t_user_id row = uid" and "t_id row = new_id"
  using assms
  by (auto simp: new_transaction_def Option.bind_eq_Some_conv split: json.splits)

lemma new_transaction_checked:
  assumes "new_transaction L e new_id uid data = Some row"
    and "transaction_body_ok L True data"
    and "getitem data ''amount'' = Some (JInt n)"
  shows "1 \<le> t_amount row" and "t_type row = ''income'' \<or> t_type row = ''expense''"
  using assms
  by (auto simp: new_transaction_def Option.bind_eq_Some_conv transaction_body_ok_def
        given_ok_def column_def bind_int_def bind_str_def amount_ok_def type_ok_def getitem_def
        split: json.splits option.splits)

lemma add_created:
  assumes "status (AddTransaction_post L e cred data s) = 201"
  shows "\<exists>jwt user row.
           jwt_required s e cred = Inr jwt \<and> user_by_email s (tok_sub jwt) = Some user
         \<and> transaction_body_ok L True data
         \<and> new_transaction L e (next_id (map t_id (transactions s))) (u_user_id user) data
             = Some row
         \<and> AddTransaction_post L e cred data s =
             ((JsonBody (transaction_schema_dump row), 201),
              s\<lparr>transactions := transactions s @ [row]\<rparr>)"
proof (cases "jwt_required s e cred")
  case (Inl r)
  then have "AddTransaction_post L e cred data s = (r, s)"
    by (simp add: AddTransaction_post_def)
  moreover have "snd r \<noteq> 201"
    using Inl by (cases cred) (auto simp: split: if_splits)
  ultimately show ?thesis using assms by (simp add: status_def)
next
  case (Inr jwt)
  show ?thesis
    using assms
    by (auto simp: add_authenticated [OF Inr] Inr status_def validation_failed_def
          server_error_def split: if_splits option.splits)
qed

lemma alice_adds_food:
  "AddTransaction_post lib0 env0 (Bearer alice_token) food state0 =
     ((JsonBody (transaction_schema_dump food_row), 201), state1)"
proof -
  have n: "next_id [t_id salary, t_id rent] = 3"
    by (simp add: next_id_def salary_def rent_def)
  have d: "today env0 = sep1" by (simp add: today_def env0_def sep1_def)
  have u: "u_user_id alice = 1" by (simp add: alice_def)
  have r: "transactions state0 = [salary, rent]" by (simp add: state0_def)
  show ?thesis
    using add_minimal_body [OF alice_authenticated alice_found, of "''expense''" lib0 "''food''",
        unfolded d u r]
    by (simp add: n food_def food_row_def state1_def)
qed

lemma alice_authenticated_state1:
  "jwt_required state1 env1 (Bearer alice_token) = Inr alice_token"
  by (simp add: state1_def state0_def env0_def env1_def alice_token_def
        check_if_token_revoked_def)




text \<open>
  Claim C10. A body with a \<open>user_id\<close> or an \<open>id\<close> key is answered 400 and stores nothing.
  When \<open>AddTransaction.post\<close> answers 201 it has appended exactly one row, and the owner
  of that row is the user whose email is the identity of the token; in every other case
  the store is unchanged.
\<close>

theorem owner_comes_from_the_token:
  assumes "jwt_required s e cred = Inr jwt"
  shows "((getitem data ''user_id'' \<noteq> None \<or> getitem data ''id'' \<noteq> None) \<longrightarrow>
            status (AddTransaction_post L e cred data s) = 400
          \<and> snd (AddTransaction_post L e cred data s) = s)
       \<and> (status (AddTransaction_post L e cred data s) = 201 \<longrightarrow>
            (\<exists>user row. user_by_email s (tok_sub jwt) = Some user
               \<and> t_user_id row = u_user_id user
               \<and> snd (AddTransaction_post L e cred data s)
                   = s\<lparr>transactions := transactions s @ [row]\<rparr>))
       \<and> (status (AddTransaction_post L e cred data s) \<noteq> 201 \<longrightarrow>
            snd (AddTransaction_post L e cred data s) = s)"
proof (intro conjI impI)
  assume k: "getitem data ''user_id'' \<noteq> None \<or> getitem data ''id'' \<noteq> None"
  have "\<not> transaction_body_ok L True data"
    using k body_not_ok_key [of data "''user_id''" L True] body_not_ok_key [of data "''id''" L True]
    by auto
  then show "status (AddTransaction_post L e cred data s) = 400"
    and "snd (AddTransaction_post L e cred data s) = s"
    by (simp_all add: add_authenticated [OF assms] status_def validation_failed_def)
next
  assume "status (AddTransaction_post L e cred data s) = 201"
  then show "\<exists>user row. user_by_email s (tok_sub jwt) = Some user
               \<and> t_user_id row = u_user_id user
               \<and> snd (AddTransaction_post L e cred data s)
                   = s\<lparr>transactions := transactions s @ [row]\<rparr>"
    by (auto simp: add_authenticated [OF assms] status_def validation_failed_def
          server_error_def dest: new_transaction_owner split: option.splits if_splits)
next
  assume "status (AddTransaction_post L e cred data s) \<noteq> 201"
  then show "snd (AddTransaction_post L e cred data s) = s"
    by (auto simp: add_authenticated [OF assms] status_def split: option.splits if_splits)
qed

theorem owner_comes_from_the_token_witness:
  "jwt_required state0 env0 (Bearer alice_token) = Inr alice_token
   \<and> getitem food_for_bob ''user_id'' \<noteq> None
   \<and> status (AddTransaction_post lib0 env0 (Bearer alice_token) food_for_bob state0) = 400
   \<and> snd (AddTransaction_post lib0 env0 (Bearer alice_token) food_for_bob state0) = state0
   \<and> status (AddTransaction_post lib0 env0 (Bearer alice_token) food state0) = 201
   \<and> (\<exists>user row. user_by_email state0 (tok_sub alice_token) = Some user
         \<and> t_user_id row = u_user_id user
         \<and> snd (AddTransaction_post lib0 env0 (Bearer alice_token) food state0)
             = state0\<lparr>transactions := transactions state0 @ [row]\<rparr>)"
proof -
  have k: "getitem food_for_bob ''user_id'' \<noteq> None"
    by (simp add: food_for_bob_def getitem_def)
  have c: "status (AddTransaction_post lib0 env0 (Bearer alice_token) food state0) = 201"
    by (simp add: alice_adds_food status_def)
  show ?thesis
    using owner_comes_from_the_token [OF alice_authenticated, of food_for_bob lib0]
      owner_comes_from_the_token [OF alice_authenticated, of food lib0]
      alice_authenticated k c
    by blast
qed

section \<open>Listing transactions\<close>

lemma filters_without_dates:
  assumes "args_get a ''start_date'' = None" and "args_get a ''end_date'' = None"
  shows "filtered_transactions L a uid rows \<noteq> None"
  using assms by (simp add: filtered_transactions_def Let_def)







section \<open>Editing and deleting\<close>

lemma find_None_owner:
  assumes "\<forall>x\<in>set rows. t_id x = T \<longrightarrow> t_user_id x \<noteq> uid"
  shows "find (\<lambda>t. t_id t = T \<and> t_user_id t = uid) rows = None"
  using assms by (auto simp: find_None_iff)

lemma edit_not_owned:
  assumes "jwt_required s e cred = Inr jwt"
    and "user_by_email s (tok_sub jwt) = Some user"
    and "\<forall>x\<in>set (transactions s). t_id x = T \<longrightarrow> t_user_id x \<noteq> u_user_id user"
  shows "EditTransaction_patch L e cred T data s =
           (if validate L TransactionSchema partial_all data \<noteq> []
            then validation_failed (validate L TransactionSchema partial_all data)
            else transaction_not_found, s)"
  using assms
  by (simp add: EditTransaction_patch_def Let_def transaction_by_id_and_owner_def
        find_None_owner)

lemma delete_not_owned:
  assumes "jwt_required s e cred = Inr jwt"
    and "user_by_email s (tok_sub jwt) = Some user"
    and "\<forall>x\<in>set (transactions s). t_id x = T \<longrightarrow> t_user_id x \<noteq> u_user_id user"
  shows "DeleteTransaction_delete e cred T s = (transaction_not_found, s)"
  using assms
  by (simp add: DeleteTransaction_delete_def transaction_by_id_and_owner_def find_None_owner)

lemma edit_authenticated:
  assumes "jwt_required s e cred = Inr jwt"
  shows "EditTransaction_patch L e cred T data s =
     (if \<not> transaction_body_ok L False data
      then (validation_failed (validate L TransactionSchema partial_all data), s)
      else case user_by_email s (tok_sub jwt) of
             None \<Rightarrow> (server_error, s)
           | Some user \<Rightarrow>
               (case transaction_by_id_and_owner s T (u_user_id user) of
                  None \<Rightarrow> (transaction_not_found, s)
                | Some transaction \<Rightarrow>
                    (case data of
                       JObj items \<Rightarrow>
                         (case setattrs L transaction items of
                            None \<Rightarrow> (server_error, s)
                          | Some t' \<Rightarrow>
                              ((JsonBody (transaction_schema_dump t'), 200),
                               s\<lparr>transactions :=
                                   update_row (t_id transaction) t' (transactions s)\<rparr>))
                     | _ \<Rightarrow> (server_error, s))))"
  using assms validate_edit_iff [of L data]
  by (simp add: EditTransaction_patch_def Let_def)


text \<open>
  Claim C2. Take a user and a transaction id, and two stores: one where no transaction
  has that id, one where a transaction has it and belongs to somebody else. Delete
  answers the same 404 in both, with the same body. Edit answers the same in both
  whatever the body of the request is, and that answer is the same 404 as soon as the
  body passes the schema (a body the schema rejects is answered 400 in both, before any
  lookup). Neither changes the store.
\<close>

theorem foreign_transaction_looks_missing:
  assumes auth1: "jwt_required s1 e1 cred = Inr jwt"
    and auth2: "jwt_required s2 e2 cred = Inr jwt"
    and user1: "user_by_email s1 (tok_sub jwt) = Some u1"
    and user2: "user_by_email s2 (tok_sub jwt) = Some u2"
    and missing: "T \<notin> t_id ` set (transactions s1)"
    and exists: "T \<in> t_id ` set (transactions s2)"
    and foreign: "\<forall>x\<in>set (transactions s2). t_id x = T \<longrightarrow> t_user_id x \<noteq> u_user_id u2"
  shows "DeleteTransaction_delete e1 cred T s1 = (transaction_not_found, s1)
       \<and> DeleteTransaction_delete e2 cred T s2 = (transaction_not_found, s2)
       \<and> fst (EditTransaction_patch L e1 cred T data s1)
           = fst (EditTransaction_patch L e2 cred T data s2)
       \<and> snd (EditTransaction_patch L e1 cred T data s1) = s1
       \<and> snd (EditTransaction_patch L e2 cred T data s2) = s2
       \<and> (validate L TransactionSchema partial_all data = [] \<longrightarrow>
            fst (EditTransaction_patch L e1 cred T data s1) = transaction_not_found
          \<and> fst (EditTransaction_patch L e2 cred T data s2) = transaction_not_found)"
proof -
  have m: "\<forall>x\<in>set (transactions s1). t_id x = T \<longrightarrow> t_user_id x \<noteq> u_user_id u1"
    using missing by auto
  show ?thesis
    by (simp add: delete_not_owned [OF auth1 user1 m] delete_not_owned [OF auth2 user2 foreign]
          edit_not_owned [OF auth1 user1 m] edit_not_owned [OF auth2 user2 foreign])
qed

theorem foreign_transaction_looks_missing_witness:
  "jwt_required state_without_rent env0 (Bearer alice_token) = Inr alice_token
   \<and> jwt_required state0 env1 (Bearer alice_token) = Inr alice_token
   \<and> user_by_email state_without_rent (tok_sub alice_token) = Some alice
   \<and> user_by_email state0 (tok_sub alice_token) = Some alice
   \<and> 2 \<notin> t_id ` set (transactions state_without_rent)
   \<and> 2 \<in> t_id ` set (transactions state0)
   \<and> DeleteTransaction_delete env0 (Bearer alice_token) 2 state_without_rent
       = (transaction_not_found, state_without_rent)
   \<and> DeleteTransaction_delete env1 (Bearer alice_token) 2 state0
       = (transaction_not_found, state0)
   \<and> fst (EditTransaction_patch lib0 env0 (Bearer alice_token) 2 (JObj raise) state_without_rent)
       = fst (EditTransaction_patch lib0 env1 (Bearer alice_token) 2 (JObj raise) state0)
   \<and> fst (EditTransaction_patch lib0 env1 (Bearer alice_token) 2 (JObj raise) state0)
       = transaction_not_found"
proof -
  have a1: "jwt_required state_without_rent env0 (Bearer alice_token) = Inr alice_token"
    by (simp add: state_without_rent_def state0_def env0_def alice_token_def
          check_if_token_revoked_def)
  have u1: "user_by_email state_without_rent (tok_sub alice_token) = Some alice"
    by (simp add: state_without_rent_def state0_def alice_token_def user_by_email_def alice_def)
  have m: "2 \<notin> t_id ` set (transactions state_without_rent)"
    by (simp add: state_without_rent_def salary_def)
  have x: "2 \<in> t_id ` set (transactions state0)"
    by (simp add: state0_def salary_def rent_def)
  have f: "\<forall>x\<in>set (transactions state0). t_id x = 2 \<longrightarrow> t_user_id x \<noteq> u_user_id alice"
    by (simp add: state0_def salary_def rent_def alice_def)
  have v: "validate lib0 TransactionSchema partial_all (JObj raise) = []"
    by (simp add: validate_edit_iff transaction_body_ok_def raise_def given_ok_def amount_ok_def
          str_ok_def)
  show ?thesis
    using foreign_transaction_looks_missing [OF a1 alice_authenticated1 u1 alice_found m x f,
        of lib0 "JObj raise"] a1 alice_authenticated1 u1 alice_found m x v
    by simp
qed








lemma setattrs_keys:
  assumes "setattrs L t items = Some t'" and "list_all loadable (map fst items)"
  shows "t_id t' = t_id t \<and> t_user_id t' = t_user_id t"
  using assms
proof (induction items arbitrary: t)
  case Nil
  then show ?case by simp
next
  case (Cons kv items)
  obtain k v where kv: "kv = (k, v)" by (cases kv)
  from Cons.prems obtain t1 where t1: "setattr L t k v = Some t1" "setattrs L t1 items = Some t'"
    by (auto simp: kv split: option.splits)
  have "loadable k" using Cons.prems(2) by (simp add: kv)
  then have "t_id t1 = t_id t \<and> t_user_id t1 = t_user_id t"
    using t1(1) by (auto simp: setattr_def loadable_def split: if_splits)
  then show ?case using Cons.IH [OF t1(2)] Cons.prems(2) by (simp add: kv)
qed




lemma edit_dump_rejected:
  assumes "jwt_required s e cred = Inr jwt"
  shows "status (EditTransaction_patch L e cred T (transaction_schema_dump t) s) = 400"
    and "snd (EditTransaction_patch L e cred T (transaction_schema_dump t) s) = s"
proof -
  have "getitem (transaction_schema_dump t) ''id'' \<noteq> None"
    by (simp add: transaction_schema_dump_def getitem_def)
  then have "\<not> transaction_body_ok L False (transaction_schema_dump t)"
    by (rule body_not_ok_key) simp
  then show "status (EditTransaction_patch L e cred T (transaction_schema_dump t) s) = 400"
    and "snd (EditTransaction_patch L e cred T (transaction_schema_dump t) s) = s"
    by (simp_all add: edit_authenticated [OF assms] status_def validation_failed_def)
qed

lemma fold_max_ge: "(a::int) \<le> fold max ids a"
proof (induction ids arbitrary: a)
  case Nil
  show ?case by simp
next
  case (Cons y ids)
  have "a \<le> max y a" by simp
  also have "\<dots> \<le> fold max ids (max y a)" by (rule Cons.IH)
  finally show ?case by simp
qed

lemma fold_max_mem: "x \<in> set ids \<Longrightarrow> (x::int) \<le> fold max ids a"
proof (induction ids arbitrary: a)
  case Nil
  then show ?case by simp
next
  case (Cons y ids)
  show ?case
  proof (cases "x = y")
    case True
    have "max y a \<le> fold max ids (max y a)" by (rule fold_max_ge)
    then show ?thesis using True by simp
  next
    case False
    then show ?thesis using Cons by simp
  qed
qed

lemma next_id_fresh: "x \<in> set ids \<Longrightarrow> x < next_id ids"
  using fold_max_mem [of x ids 0] by (simp add: next_id_def)

lemma find_append_last:
  assumes "\<forall>x\<in>set xs. \<not> P x" and "P y"
  shows "find P (xs @ [y]) = Some y"
  using assms by (induction xs) auto

lemma update_row_same:
  assumes "\<forall>x\<in>set rows. t_id x \<noteq> t_id t"
  shows "update_row (t_id t) t (rows @ [t]) = rows @ [t]"
  using assms by (simp add: update_row_def map_idI)

lemma setattrs_dump_without_date:
  "setattrs L t (without_date (dump_loadable t)) = Some t"
  by (simp add: without_date_def dump_loadable_def setattr_def bind_int_def bind_str_def)

lemma setattrs_dump:
  assumes "db_datetime L (isoformat (t_date t)) = Some (t_date t)"
  shows "setattrs L t (dump_loadable t) = Some t"
  using assms
  by (simp add: dump_loadable_def setattr_def bind_int_def bind_str_def bind_datetime_def)

lemma body_ok_dump_without_date:
  assumes "1 \<le> t_amount t" and "t_type t = ''income'' \<or> t_type t = ''expense''"
  shows "transaction_body_ok L False (JObj (without_date (dump_loadable t)))"
  using assms
  by (auto simp: transaction_body_ok_def without_date_def dump_loadable_def given_ok_def
        amount_ok_def type_ok_def str_ok_def)

lemma body_ok_dump:
  assumes "1 \<le> t_amount t" and "t_type t = ''income'' \<or> t_type t = ''expense''"
    and "isoformat (t_date t) \<noteq> []" and "from_iso_datetime L (isoformat (t_date t)) \<noteq> None"
  shows "transaction_body_ok L False (JObj (dump_loadable t))"
  using assms
  by (auto simp: transaction_body_ok_def dump_loadable_def given_ok_def
        amount_ok_def type_ok_def str_ok_def date_ok_def)

lemma isoformat_not_empty: "isoformat d \<noteq> []"
  by (simp add: isoformat_def)

lemma edit_own_row:
  assumes auth: "jwt_required s e cred = Inr jwt"
    and user: "user_by_email s (tok_sub jwt) = Some user"
    and rows: "transactions s = rows @ [t]"
    and fresh: "\<forall>x\<in>set rows. t_id x \<noteq> t_id t"
    and owner: "t_user_id t = u_user_id user"
    and ok: "transaction_body_ok L False (JObj items)"
    and same: "setattrs L t items = Some t"
  shows "EditTransaction_patch L e cred (t_id t) (JObj items) s =
           ((JsonBody (transaction_schema_dump t), 200), s)"
proof -
  have "transaction_by_id_and_owner s (t_id t) (u_user_id user) = Some t"
    unfolding transaction_by_id_and_owner_def rows
    using fresh owner by (intro find_append_last) auto
  moreover have "s\<lparr>transactions := update_row (t_id t) t (transactions s)\<rparr> = s"
    using update_row_same [OF fresh] by (simp add: rows)
  ultimately show ?thesis
    by (simp add: edit_authenticated [OF auth] ok user same)
qed

text \<open>
  Claim C9, as amended. Take a transaction created by \<open>AddTransaction.post\<close> from a body
  whose amount is a JSON integer. Its dumped representation carries the dump-only keys
  \<open>id\<close> and \<open>user_id\<close>, so re-submitted verbatim as an edit of that transaction it is
  answered 400, and the store is unchanged. Re-submitted without these two keys and
  without the date, the edit answers 200 with the same dump and the store is unchanged;
  with the date as well it does so whenever the schema reads the dumped date and the
  store turns it back into the same datetime.
\<close>

theorem dump_resubmitted_as_edit:
  assumes created: "status (AddTransaction_post L e0 cred0 data s0) = 201"
    and int_amount: "getitem data ''amount'' = Some (JInt n)"
    and s: "s = snd (AddTransaction_post L e0 cred0 data s0)"
    and auth: "jwt_required s e cred = Inr jwt"
    and same_user: "tok_sub jwt = (case cred0 of Bearer jwt0 \<Rightarrow> tok_sub jwt0 | _ \<Rightarrow> [])"
  shows "\<exists>t. fst (AddTransaction_post L e0 cred0 data s0)
               = (JsonBody (transaction_schema_dump t), 201)
           \<and> transactions s = transactions s0 @ [t]
           \<and> status (EditTransaction_patch L e cred (t_id t) (transaction_schema_dump t) s) = 400
           \<and> snd (EditTransaction_patch L e cred (t_id t) (transaction_schema_dump t) s) = s
           \<and> EditTransaction_patch L e cred (t_id t) (JObj (without_date (dump_loadable t))) s
               = ((JsonBody (transaction_schema_dump t), 200), s)
           \<and> (from_iso_datetime L (isoformat (t_date t)) \<noteq> None
                \<and> db_datetime L (isoformat (t_date t)) = Some (t_date t)
              \<longrightarrow> EditTransaction_patch L e cred (t_id t) (JObj (dump_loadable t)) s
                      = ((JsonBody (transaction_schema_dump t), 200), s))"
proof -
  from add_created [OF created] obtain jwt0 user t where
    a: "jwt_required s0 e0 cred0 = Inr jwt0" "user_by_email s0 (tok_sub jwt0) = Some user"
       "transaction_body_ok L True data"
       "new_transaction L e0 (next_id (map t_id (transactions s0))) (u_user_id user) data = Some t"
       "AddTransaction_post L e0 cred0 data s0 =
          ((JsonBody (transaction_schema_dump t), 201), s0\<lparr>transactions := transactions s0 @ [t]\<rparr>)"
    by blast
  have cred0: "cred0 = Bearer jwt0"
    using a(1) by (cases cred0) (auto split: if_splits)
  have rows: "transactions s = transactions s0 @ [t]" and users: "users s = users s0"
    using s a(5) by simp_all
  have user: "user_by_email s (tok_sub jwt) = Some user"
    using a(2) same_user cred0 users by (simp add: user_by_email_def)
  have id: "t_id t = next_id (map t_id (transactions s0))" and owner: "t_user_id t = u_user_id user"
    using new_transaction_owner [OF a(4)] by simp_all
  have fresh: "\<forall>x\<in>set (transactions s0). t_id x \<noteq> t_id t"
    using next_id_fresh [of _ "map t_id (transactions s0)"] id by fastforce
  have chk: "1 \<le> t_amount t" "t_type t = ''income'' \<or> t_type t = ''expense''"
    using new_transaction_checked [OF a(4) a(3) int_amount] by simp_all
  have e1: "EditTransaction_patch L e cred (t_id t) (JObj (without_date (dump_loadable t))) s
               = ((JsonBody (transaction_schema_dump t), 200), s)"
    using edit_own_row [OF auth user rows fresh owner body_ok_dump_without_date [OF chk]
        setattrs_dump_without_date] .
  have e2: "EditTransaction_patch L e cred (t_id t) (JObj (dump_loadable t)) s
               = ((JsonBody (transaction_schema_dump t), 200), s)"
    if "from_iso_datetime L (isoformat (t_date t)) \<noteq> None"
      and "db_datetime L (isoformat (t_date t)) = Some (t_date t)"
    using edit_own_row [OF auth user rows fresh owner
        body_ok_dump [OF chk isoformat_not_empty that(1)] setattrs_dump [OF that(2)]] .
  show ?thesis
    using a(5) rows edit_dump_rejected [OF auth, of L "t_id t" t] e1 e2
    by (intro exI [of _ t]) auto
qed

theorem dump_resubmitted_as_edit_witness:
  "status (AddTransaction_post lib0 env0 (Bearer alice_token) food state0) = 201
   \<and> getitem food ''amount'' = Some (JInt 1)
   \<and> jwt_required state1 env1 (Bearer alice_token) = Inr alice_token
   \<and> (\<exists>t. fst (AddTransaction_post lib0 env0 (Bearer alice_token) food state0)
               = (JsonBody (transaction_schema_dump t), 201)
           \<and> transactions state1 = transactions state0 @ [t]
           \<and> status (EditTransaction_patch lib0 env1 (Bearer alice_token) (t_id t)
                (transaction_schema_dump t) state1) = 400
           \<and> snd (EditTransaction_patch lib0 env1 (Bearer alice_token) (t_id t)
                (transaction_schema_dump t) state1) = state1
           \<and> EditTransaction_patch lib0 env1 (Bearer alice_token) (t_id t)
                (JObj (without_date (dump_loadable t))) state1
               = ((JsonBody (transaction_schema_dump t), 200), state1)
           \<and> EditTransaction_patch lib0 env1 (Bearer alice_token) (t_id t)
                (JObj (dump_loadable t)) state1
               = ((JsonBody (transaction_schema_dump t), 200), state1))"
proof -
  have c: "status (AddTransaction_post lib0 env0 (Bearer alice_token) food state0) = 201"
    by (simp add: alice_adds_food status_def)
  have i: "getitem food ''amount'' = Some (JInt 1)" by (simp add: food_def getitem_def)
  have s: "state1 = snd (AddTransaction_post lib0 env0 (Bearer alice_token) food state0)"
    by (simp add: alice_adds_food)
  have u: "tok_sub alice_token = (case Bearer alice_token of Bearer jwt0 \<Rightarrow> tok_sub jwt0 | _ \<Rightarrow> [])"
    by simp
  obtain t where t:
    "fst (AddTransaction_post lib0 env0 (Bearer alice_token) food state0)
               = (JsonBody (transaction_schema_dump t), 201)"
    "transactions state1 = transactions state0 @ [t]"
    "status (EditTransaction_patch lib0 env1 (Bearer alice_token) (t_id t)
                (transaction_schema_dump t) state1) = 400"
    "snd (EditTransaction_patch lib0 env1 (Bearer alice_token) (t_id t)
                (transaction_schema_dump t) state1) = state1"
    "EditTransaction_patch lib0 env1 (Bearer alice_token) (t_id t)
                (JObj (without_date (dump_loadable t))) state1
               = ((JsonBody (transaction_schema_dump t), 200), state1)"
    "from_iso_datetime lib0 (isoformat (t_date t)) \<noteq> None
                \<and> db_datetime lib0 (isoformat (t_date t)) = Some (t_date t)
              \<longrightarrow> EditTransaction_patch lib0 env1 (Bearer alice_token) (t_id t)
                    (JObj (dump_loadable t)) state1
                      = ((JsonBody (transaction_schema_dump t), 200), state1)"
    using dump_resubmitted_as_edit [OF c i s alice_authenticated_state1 u] by blast
  have "t = food_row" using t(2) by (simp add: state1_def state0_def)
  then have "t_date t = sep1" by (simp add: food_row_def)
  then have "from_iso_datetime lib0 (isoformat (t_date t)) \<noteq> None
                \<and> db_datetime lib0 (isoformat (t_date t)) = Some (t_date t)"
    by (simp add: lib0_def)
  then show ?thesis using c i alice_authenticated_state1 t by blast
qed

text \<open>
  The claim as stated fails: the dump of a transaction just created, re-submitted
  verbatim as an edit of it by its owner, is answered 400.
\<close>

theorem dump_resubmitted_verbatim_counterexample:
  "AddTransaction_post lib0 env0 (Bearer alice_token) food state0 =
     ((JsonBody (transaction_schema_dump food_row), 201), state1)
   \<and> transaction_by_id_and_owner state1 3 (u_user_id alice) = Some food_row
   \<and> status (EditTransaction_patch lib0 env1 (Bearer alice_token) 3
        (transaction_schema_dump food_row) state1) = 400"
proof -
  have "transaction_by_id_and_owner state1 3 (u_user_id alice) = Some food_row"
    by (simp add: transaction_by_id_and_owner_def state1_def state0_def salary_def rent_def
          food_row_def alice_def)
  then show ?thesis
    using alice_adds_food edit_dump_rejected(1) [OF alice_authenticated_state1] by simp
qed

section \<open>Reports\<close>







section \<open>Primary keys\<close>

text \<open>
  No request makes two transactions share an id, so the store a handler sees has distinct
  primary keys whenever the initial one has.
\<close>

lemma map_t_id_update_row:
  assumes "t_id t' = pk"
  shows "map t_id (update_row pk t' rows) = map t_id rows"
  using assms by (induction rows) (auto simp: update_row_def)

lemma distinct_delete_row:
  "distinct (map t_id rows) \<Longrightarrow> distinct (map t_id (delete_row pk rows))"
  by (simp add: delete_row_def distinct_map_filter)

lemma add_keeps_primary_keys:
  assumes "distinct (map t_id (transactions s))"
  shows "distinct (map t_id (transactions (snd (AddTransaction_post L e cred data s))))"
proof (cases "status (AddTransaction_post L e cred data s) = 201")
  case True
  from add_created [OF True] obtain jwt user row where
    "jwt_required s e cred = Inr jwt" "user_by_email s (tok_sub jwt) = Some user"
    "transaction_body_ok L True data"
    and r: "new_transaction L e (next_id (map t_id (transactions s))) (u_user_id user) data = Some row"
       "AddTransaction_post L e cred data s =
          ((JsonBody (transaction_schema_dump row), 201),
           s\<lparr>transactions := transactions s @ [row]\<rparr>)"
    by blast
  have "t_id row \<notin> set (map t_id (transactions s))"
    using next_id_fresh [of "t_id row" "map t_id (transactions s)"] new_transaction_owner(2) [OF r(1)]
    by auto
  then show ?thesis using assms r(2) by simp
next
  case False
  have "snd (AddTransaction_post L e cred data s) = s"
  proof (cases "jwt_required s e cred")
    case (Inl r)
    then show ?thesis by (simp add: AddTransaction_post_def)
  next
    case (Inr jwt)
    then show ?thesis
      using False by (auto simp: add_authenticated [OF Inr] status_def split: option.splits if_splits)
  qed
  then show ?thesis using assms by simp
qed

lemma edit_keeps_primary_keys:
  assumes "distinct (map t_id (transactions s))"
  shows "distinct (map t_id (transactions (snd (EditTransaction_patch L e cred T data s))))"
proof (cases "jwt_required s e cred")
  case (Inl r)
  then show ?thesis using assms by (simp add: EditTransaction_patch_def)
next
  case (Inr jwt)
  show ?thesis
  proof (cases "transaction_body_ok L False data")
    case False
    then show ?thesis using assms by (simp add: edit_authenticated [OF Inr])
  next
    case True
    then obtain items where d: "data = JObj items"
      by (cases data) (simp_all add: transaction_body_ok_def)
    have k: "list_all loadable (map fst items)" using True d by (simp add: body_ok_loadable)
    have "\<And>t t'. setattrs L t items = Some t' \<Longrightarrow>
        map t_id (update_row (t_id t) t' (transactions s)) = map t_id (transactions s)"
      using setattrs_keys [OF _ k] by (simp add: map_t_id_update_row)
    then show ?thesis
      using assms True
      by (auto simp: edit_authenticated [OF Inr] d split: option.splits)
  qed
qed

lemma handle_keeps_primary_keys:
  assumes "distinct (map t_id (transactions s))"
  shows "distinct (map t_id (transactions (snd (handle L e r s))))"
proof (cases r)
  case (AddTransaction cred data)
  then show ?thesis using add_keeps_primary_keys [OF assms] by simp
next
  case (EditTransaction cred T data)
  then show ?thesis using edit_keeps_primary_keys [OF assms] by simp
next
  case (DeleteTransaction cred T)
  then show ?thesis
    using assms distinct_delete_row
    by (auto simp: DeleteTransaction_delete_def split: sum.splits option.splits)
qed (use assms in \<open>auto simp: Register_post_def Login_post_def Logout_post_def
        GetTransactions_get_def MonthlySummary_get_def CategoryBreakdown_get_def Let_def
        split: option.splits sum.splits\<close>)

end
